theory Spec2Isabelle
  imports Main "HOL-Library.Sublist"
begin

section \<open>Data model\<close>

text \<open>
  The bot keeps news entries as Python dictionaries with string values. A Python
  \<open>str\<close> is a sequence of Unicode code points, and slicing and equality work on code
  points, so a string is modelled as a list of code points. Most literals of the source
  are Cyrillic; they are written out as code-point lists.
\<close>

type_synonym ustring = "nat list"

text \<open>
  \<open>datetime\<close> values have microsecond resolution; a point in time is the number of
  microseconds since the epoch. The bot stores times as \<open>isoformat()\<close> strings and reads
  them back with \<open>fromisoformat\<close>, which is the identity on the values it wrote.
  One clock reading is used per request.
\<close>

type_synonym time = int

type_synonym user = int

text \<open>
  The \<open>published_at\<close> entry holds the provider's opaque string for fetched entries
  and \<open>datetime.now().isoformat()\<close> for the built-in sample entries.
\<close>

datatype stamp = Provider ustring | Iso time

text \<open>
  A news entry. The key \<open>saved_at\<close> exists only on entries that
  \<open>SimpleNewsBot.handle_save_command\<close> has saved.
\<close>

record item =
  title :: ustring
  description :: ustring
  url :: ustring
  source :: ustring
  category :: ustring
  published_at :: stamp
  timestamp :: time
  saved_at :: "time option"

section \<open>String literals of the source\<close>

definition removed_url :: ustring where
  \<comment> \<open>the ASCII string https://removed.com\<close>
  "removed_url =
     [104, 116, 116, 112, 115, 58, 47, 47, 114, 101, 109, 111, 118, 101, 100, 46, 99, 111, 109]"

definition description_placeholder :: ustring where
  \<comment> \<open>Cyrillic placeholder for a missing description, 19 code points\<close>
  "description_placeholder =
     [1054, 1087, 1080, 1089, 1072, 1085, 1080, 1077, 32, 1085, 1077, 1076, 1086, 1089, 1090,
     1091, 1087, 1085, 1086]"

definition cat_technology :: ustring where
  \<comment> \<open>the ASCII string technology\<close>
  "cat_technology =
     [116, 101, 99, 104, 110, 111, 108, 111, 103, 121]"

definition cat_science :: ustring where
  \<comment> \<open>the ASCII string science\<close>
  "cat_science =
     [115, 99, 105, 101, 110, 99, 101]"

definition cat_business :: ustring where
  \<comment> \<open>the ASCII string business\<close>
  "cat_business =
     [98, 117, 115, 105, 110, 101, 115, 115]"

definition cat_health :: ustring where
  \<comment> \<open>the ASCII string health\<close>
  "cat_health =
     [104, 101, 97, 108, 116, 104]"

definition cat_sports :: ustring where
  \<comment> \<open>the ASCII string sports\<close>
  "cat_sports =
     [115, 112, 111, 114, 116, 115]"

definition cat_entertainment :: ustring where
  \<comment> \<open>the ASCII string entertainment\<close>
  "cat_entertainment =
     [101, 110, 116, 101, 114, 116, 97, 105, 110, 109, 101, 110, 116]"

definition cat_general :: ustring where
  \<comment> \<open>the ASCII string general\<close>
  "cat_general =
     [103, 101, 110, 101, 114, 97, 108]"

definition ru_technology :: ustring where
  \<comment> \<open>Cyrillic display name of technology\<close>
  "ru_technology =
     [1090, 1077, 1093, 1085, 1086, 1083, 1086, 1075, 1080, 1080]"

definition ru_science :: ustring where
  \<comment> \<open>Cyrillic display name of science\<close>
  "ru_science =
     [1085, 1072, 1091, 1082, 1072]"

definition ru_business :: ustring where
  \<comment> \<open>Cyrillic display name of business\<close>
  "ru_business =
     [1073, 1080, 1079, 1085, 1077, 1089]"

definition ru_health :: ustring where
  \<comment> \<open>Cyrillic display name of health\<close>
  "ru_health =
     [1079, 1076, 1086, 1088, 1086, 1074, 1100, 1077]"

definition ru_sports :: ustring where
  \<comment> \<open>Cyrillic display name of sports\<close>
  "ru_sports =
     [1089, 1087, 1086, 1088, 1090]"

definition ru_entertainment :: ustring where
  \<comment> \<open>Cyrillic display name of entertainment\<close>
  "ru_entertainment =
     [1088, 1072, 1079, 1074, 1083, 1077, 1095, 1077, 1085, 1080, 1103]"

definition ru_general :: ustring where
  \<comment> \<open>Cyrillic display name of general\<close>
  "ru_general =
     [1086, 1073, 1097, 1080, 1077]"

definition sample1_title :: ustring where
  \<comment> \<open>title of sample item 1 (Cyrillic, 52 code points)\<close>
  "sample1_title =
     [1053, 1086, 1074, 1099, 1077, 32, 1090, 1077, 1093, 1085, 1086, 1083, 1086, 1075, 1080,
     1080, 32, 1074, 32, 1086, 1073, 1083, 1072, 1089, 1090, 1080, 32, 1080, 1089, 1082, 1091,
     1089, 1089, 1090, 1074, 1077, 1085, 1085, 1086, 1075, 1086, 32, 1080, 1085, 1090, 1077,
     1083, 1083, 1077, 1082, 1090, 1072]"

definition sample1_description :: ustring where
  \<comment> \<open>description of sample item 1 (Cyrillic, 94 code points)\<close>
  "sample1_description =
     [1048, 1089, 1089, 1083, 1077, 1076, 1086, 1074, 1072, 1090, 1077, 1083, 1080, 32, 1087,
     1088, 1077, 1076, 1089, 1090, 1072, 1074, 1080, 1083, 1080, 32, 1085, 1086, 1074, 1091,
     1102, 32, 1084, 1086, 1076, 1077, 1083, 1100, 32, 1048, 1048, 44, 32, 1089, 1087, 1086,
     1089, 1086, 1073, 1085, 1091, 1102, 32, 1088, 1077, 1096, 1072, 1090, 1100, 32, 1089, 1083,
     1086, 1078, 1085, 1099, 1077, 32, 1079, 1072, 1076, 1072, 1095, 1080, 32, 1084, 1072, 1096,
     1080, 1085, 1085, 1086, 1075, 1086, 32, 1086, 1073, 1091, 1095, 1077, 1085, 1080, 1103, 46]"

definition sample1_url :: ustring where
  \<comment> \<open>the ASCII string https://example.com/ai-news\<close>
  "sample1_url =
     [104, 116, 116, 112, 115, 58, 47, 47, 101, 120, 97, 109, 112, 108, 101, 46, 99, 111, 109,
     47, 97, 105, 45, 110, 101, 119, 115]"

definition sample1_source :: ustring where
  \<comment> \<open>the ASCII string TechNews\<close>
  "sample1_source =
     [84, 101, 99, 104, 78, 101, 119, 115]"

definition sample2_title :: ustring where
  \<comment> \<open>title of sample item 2 (Cyrillic, 35 code points)\<close>
  "sample2_title =
     [1054, 1090, 1082, 1088, 1099, 1090, 1080, 1077, 32, 1074, 32, 1086, 1073, 1083, 1072, 1089,
     1090, 1080, 32, 1082, 1074, 1072, 1085, 1090, 1086, 1074, 1086, 1081, 32, 1092, 1080, 1079,
     1080, 1082, 1080]"

definition sample2_description :: ustring where
  \<comment> \<open>description of sample item 2 (Cyrillic, 110 code points)\<close>
  "sample2_description =
     [1059, 1095, 1077, 1085, 1099, 1077, 32, 1089, 1076, 1077, 1083, 1072, 1083, 1080, 32, 1074,
     1072, 1078, 1085, 1086, 1077, 32, 1086, 1090, 1082, 1088, 1099, 1090, 1080, 1077, 32, 1074,
     32, 1086, 1073, 1083, 1072, 1089, 1090, 1080, 32, 1082, 1074, 1072, 1085, 1090, 1086, 1074,
     1099, 1093, 32, 1074, 1099, 1095, 1080, 1089, 1083, 1077, 1085, 1080, 1081, 44, 32, 1082,
     1086, 1090, 1086, 1088, 1086, 1077, 32, 1084, 1086, 1078, 1077, 1090, 32, 1088, 1077, 1074,
     1086, 1083, 1102, 1094, 1080, 1086, 1085, 1080, 1079, 1080, 1088, 1086, 1074, 1072, 1090,
     1100, 32, 1082, 1088, 1080, 1087, 1090, 1086, 1075, 1088, 1072, 1092, 1080, 1102, 46]"

definition sample2_url :: ustring where
  \<comment> \<open>the ASCII string https://example.com/quantum-news\<close>
  "sample2_url =
     [104, 116, 116, 112, 115, 58, 47, 47, 101, 120, 97, 109, 112, 108, 101, 46, 99, 111, 109,
     47, 113, 117, 97, 110, 116, 117, 109, 45, 110, 101, 119, 115]"

definition sample2_source :: ustring where
  \<comment> \<open>the ASCII string ScienceDaily\<close>
  "sample2_source =
     [83, 99, 105, 101, 110, 99, 101, 68, 97, 105, 108, 121]"

definition sample3_title :: ustring where
  \<comment> \<open>title of sample item 3 (Cyrillic, 22 code points)\<close>
  "sample3_title =
     [1056, 1086, 1089, 1090, 32, 1088, 1099, 1085, 1082, 1072, 32, 1082, 1088, 1080, 1087, 1090,
     1086, 1074, 1072, 1083, 1102, 1090]"

definition sample3_description :: ustring where
  \<comment> \<open>description of sample item 3 (Cyrillic, 82 code points)\<close>
  "sample3_description =
     [1040, 1085, 1072, 1083, 1080, 1090, 1080, 1082, 1080, 32, 1087, 1088, 1086, 1075, 1085,
     1086, 1079, 1080, 1088, 1091, 1102, 1090, 32, 1079, 1085, 1072, 1095, 1080, 1090, 1077,
     1083, 1100, 1085, 1099, 1081, 32, 1088, 1086, 1089, 1090, 32, 1082, 1088, 1080, 1087, 1090,
     1086, 1074, 1072, 1083, 1102, 1090, 1085, 1086, 1075, 1086, 32, 1088, 1099, 1085, 1082,
     1072, 32, 1074, 32, 1073, 1083, 1080, 1078, 1072, 1081, 1096, 1080, 1077, 32, 1084, 1077,
     1089, 1103, 1094, 1099, 46]"

definition sample3_url :: ustring where
  \<comment> \<open>the ASCII string https://example.com/crypto-news\<close>
  "sample3_url =
     [104, 116, 116, 112, 115, 58, 47, 47, 101, 120, 97, 109, 112, 108, 101, 46, 99, 111, 109,
     47, 99, 114, 121, 112, 116, 111, 45, 110, 101, 119, 115]"

definition sample3_source :: ustring where
  \<comment> \<open>the ASCII string BusinessToday\<close>
  "sample3_source =
     [66, 117, 115, 105, 110, 101, 115, 115, 84, 111, 100, 97, 121]"

definition sample4_title :: ustring where
  \<comment> \<open>title of sample item 4 (Cyrillic, 28 code points)\<close>
  "sample4_title =
     [1056, 1072, 1079, 1088, 1072, 1073, 1086, 1090, 1082, 1072, 32, 1085, 1086, 1074, 1086,
     1075, 1086, 32, 1087, 1088, 1086, 1094, 1077, 1089, 1089, 1086, 1088, 1072]"

definition sample4_description :: ustring where
  \<comment> \<open>description of sample item 4 (Cyrillic, 93 code points)\<close>
  "sample4_description =
     [1050, 1086, 1084, 1087, 1072, 1085, 1080, 1103, 32, 1087, 1088, 1077, 1076, 1089, 1090,
     1072, 1074, 1080, 1083, 1072, 32, 1085, 1086, 1074, 1099, 1081, 32, 1087, 1088, 1086, 1094,
     1077, 1089, 1089, 1086, 1088, 32, 1089, 32, 1091, 1083, 1091, 1095, 1096, 1077, 1085, 1085,
     1086, 1081, 32, 1087, 1088, 1086, 1080, 1079, 1074, 1086, 1076, 1080, 1090, 1077, 1083,
     1100, 1085, 1086, 1089, 1090, 1100, 1102, 32, 1080, 32, 1101, 1085, 1077, 1088, 1075, 1086,
     1101, 1092, 1092, 1077, 1082, 1090, 1080, 1074, 1085, 1086, 1089, 1090, 1100, 1102, 46]"

definition sample4_url :: ustring where
  \<comment> \<open>the ASCII string https://example.com/processor-news\<close>
  "sample4_url =
     [104, 116, 116, 112, 115, 58, 47, 47, 101, 120, 97, 109, 112, 108, 101, 46, 99, 111, 109,
     47, 112, 114, 111, 99, 101, 115, 115, 111, 114, 45, 110, 101, 119, 115]"

definition sample4_source :: ustring where
  \<comment> \<open>the ASCII string TechWorld\<close>
  "sample4_source =
     [84, 101, 99, 104, 87, 111, 114, 108, 100]"

definition sample5_title :: ustring where
  \<comment> \<open>title of sample item 5 (Cyrillic, 17 code points)\<close>
  "sample5_title =
     [1055, 1088, 1086, 1088, 1099, 1074, 32, 1074, 32, 1084, 1077, 1076, 1080, 1094, 1080, 1085,
     1077]"

definition sample5_description :: ustring where
  \<comment> \<open>description of sample item 5 (Cyrillic, 110 code points)\<close>
  "sample5_description =
     [1059, 1095, 1077, 1085, 1099, 1077, 32, 1088, 1072, 1079, 1088, 1072, 1073, 1086, 1090,
     1072, 1083, 1080, 32, 1085, 1086, 1074, 1099, 1081, 32, 1084, 1077, 1090, 1086, 1076, 32,
     1083, 1077, 1095, 1077, 1085, 1080, 1103, 44, 32, 1082, 1086, 1090, 1086, 1088, 1099, 1081,
     32, 1087, 1086, 1082, 1072, 1079, 1099, 1074, 1072, 1077, 1090, 32, 1086, 1073, 1085, 1072,
     1076, 1077, 1078, 1080, 1074, 1072, 1102, 1097, 1080, 1077, 32, 1088, 1077, 1079, 1091,
     1083, 1100, 1090, 1072, 1090, 1099, 32, 1074, 32, 1082, 1083, 1080, 1085, 1080, 1095, 1077,
     1089, 1082, 1080, 1093, 32, 1080, 1089, 1087, 1099, 1090, 1072, 1085, 1080, 1103, 1093, 46]"

definition sample5_url :: ustring where
  \<comment> \<open>the ASCII string https://example.com/medical-news\<close>
  "sample5_url =
     [104, 116, 116, 112, 115, 58, 47, 47, 101, 120, 97, 109, 112, 108, 101, 46, 99, 111, 109,
     47, 109, 101, 100, 105, 99, 97, 108, 45, 110, 101, 119, 115]"

definition sample5_source :: ustring where
  \<comment> \<open>the ASCII string MedicalNews\<close>
  "sample5_source =
     [77, 101, 100, 105, 99, 97, 108, 78, 101, 119, 115]"

definition sample6_title :: ustring where
  \<comment> \<open>title of sample item 6 (Cyrillic, 21 code points)\<close>
  "sample6_title =
     [1048, 1085, 1074, 1077, 1089, 1090, 1080, 1094, 1080, 1080, 32, 1074, 32, 1089, 1090, 1072,
     1088, 1090, 1072, 1087, 1099]"

definition sample6_description :: ustring where
  \<comment> \<open>description of sample item 6 (Cyrillic, 94 code points)\<close>
  "sample6_description =
     [1042, 1077, 1085, 1095, 1091, 1088, 1085, 1099, 1077, 32, 1092, 1086, 1085, 1076, 1099, 32,
     1091, 1074, 1077, 1083, 1080, 1095, 1080, 1074, 1072, 1102, 1090, 32, 1080, 1085, 1074,
     1077, 1089, 1090, 1080, 1094, 1080, 1080, 32, 1074, 32, 1090, 1077, 1093, 1085, 1086, 1083,
     1086, 1075, 1080, 1095, 1077, 1089, 1082, 1080, 1077, 32, 1089, 1090, 1072, 1088, 1090,
     1072, 1087, 1099, 44, 32, 1086, 1089, 1086, 1073, 1077, 1085, 1085, 1086, 32, 1074, 32,
     1086, 1073, 1083, 1072, 1089, 1090, 1080, 32, 1092, 1080, 1085, 1090, 1077, 1093, 1072, 46]"

definition sample6_url :: ustring where
  \<comment> \<open>the ASCII string https://example.com/startup-news\<close>
  "sample6_url =
     [104, 116, 116, 112, 115, 58, 47, 47, 101, 120, 97, 109, 112, 108, 101, 46, 99, 111, 109,
     47, 115, 116, 97, 114, 116, 117, 112, 45, 110, 101, 119, 115]"

definition sample6_source :: ustring where
  \<comment> \<open>the ASCII string VentureBeat\<close>
  "sample6_source =
     [86, 101, 110, 116, 117, 114, 101, 66, 101, 97, 116]"

section \<open>The news provider\<close>

text \<open>
  An article of the provider's JSON answer. For the title, the description and the url,
  which the source reads with \<open>get\<close>, \<open>None\<close> stands for a missing key or a JSON
  null. \<open>a_source_name\<close> is \<open>article['source']['name']\<close> and \<open>a_published_at\<close>
  is \<open>article['publishedAt']\<close>; the source reads both with subscripts, so a missing
  one, \<open>None\<close> here, raises. A value that is present is a string.
\<close>

record article =
  a_title :: "ustring option"
  a_description :: "ustring option"
  a_url :: "ustring option"
  a_source_name :: "ustring option"
  a_published_at :: "ustring option"

text \<open>
  The two requests \<open>_fetch_news\<close> issues against \<open>top-headlines\<close>: one per category,
  and the broad one without a category.
\<close>

datatype request = CategoryHeadlines ustring | GeneralHeadlines

text \<open>
  \<open>RequestFailed\<close>: \<open>requests.get\<close>, \<open>raise_for_status\<close> or \<open>response.json\<close>
  raised (network error, timeout, non-success status, a body that is not JSON).
  \<open>Body ok articles\<close>: a JSON answer, \<open>ok\<close> telling whether its status is \<open>'ok'\<close>;
  a missing article list is the empty list.
\<close>

datatype response = RequestFailed | Body bool "article list"

type_synonym provider = "request \<Rightarrow> response"

datatype error = RequestException | KeyError

text \<open>Truth value of \<open>article.get(key)\<close>: present and not the empty string.\<close>

definition truthy :: "ustring option \<Rightarrow> bool" where
  "truthy v = (case v of None \<Rightarrow> False | Some s \<Rightarrow> s \<noteq> [])"

text \<open>
  The test both loops of \<open>_fetch_news\<close> apply to an article: title, description and url
  present, and the url not the marker of a removed article.
\<close>

definition valid_article :: "article \<Rightarrow> bool" where
  "valid_article a =
     (truthy (a_title a) \<and> truthy (a_description a) \<and> truthy (a_url a)
      \<and> a_url a \<noteq> Some removed_url)"

text \<open>
  The dictionary literal appended to \<open>news_list\<close>. Its subscripts raise \<open>KeyError\<close>
  on a missing key.
\<close>

definition make_item :: "article \<Rightarrow> ustring \<Rightarrow> time \<Rightarrow> error + item" where
  "make_item a cat now =
     (case (a_title a, a_description a, a_url a, a_source_name a, a_published_at a) of
        (Some t, Some d, Some u, Some s, Some p) \<Rightarrow>
           Inr \<lparr>title = t,
                description = (if d = [] then description_placeholder else d),
                url = u, source = s, category = cat,
                published_at = Provider p, timestamp = now, saved_at = None\<rparr>
      | _ \<Rightarrow> Inl KeyError)"

text \<open>\<open>self.categories\<close> and \<open>self.categories.get(category, category)\<close>.\<close>

definition categories :: "(ustring \<times> ustring) list" where
  "categories =
     [(cat_technology, ru_technology), (cat_science, ru_science),
      (cat_business, ru_business), (cat_health, ru_health), (cat_sports, ru_sports),
      (cat_entertainment, ru_entertainment), (cat_general, ru_general)]"

definition categories_get :: "ustring \<Rightarrow> ustring" where
  "categories_get c = (case map_of categories c of Some r \<Rightarrow> r | None \<Rightarrow> c)"

section \<open>Fetching: \<open>NewsBot._fetch_news\<close> (bot.py, \<open>full_webhook_bot.py\<close>)\<close>

text \<open>
  The inner loop over the articles of one category answer: every valid article is
  appended, with no look at the titles already collected. An exception leaves the loop.
\<close>

fun collect_category :: "ustring \<Rightarrow> time \<Rightarrow> article list \<Rightarrow> item list \<Rightarrow> error + item list" where
  "collect_category cat now [] news_list = Inr news_list"
| "collect_category cat now (a # as) news_list =
     (if valid_article a then
        (case make_item a cat now of
           Inl e \<Rightarrow> Inl e
         | Inr it \<Rightarrow> collect_category cat now as (news_list @ [it]))
      else collect_category cat now as news_list)"

text \<open>
  The outer loop over the categories. The result carries the requests issued so far.
  A failed request raises out of the loop.
\<close>

fun fetch_categories ::
  "provider \<Rightarrow> time \<Rightarrow> ustring list \<Rightarrow> item list \<Rightarrow> request list
     \<Rightarrow> (error + item list) \<times> request list" where
  "fetch_categories P now [] news_list calls = (Inr news_list, calls)"
| "fetch_categories P now (c # cs) news_list calls =
     (case P (CategoryHeadlines c) of
        RequestFailed \<Rightarrow> (Inl RequestException, calls @ [CategoryHeadlines c])
      | Body ok arts \<Rightarrow>
          (if ok \<and> arts \<noteq> [] then
             (case collect_category (categories_get c) now arts news_list of
                Inl e \<Rightarrow> (Inl e, calls @ [CategoryHeadlines c])
              | Inr news_list' \<Rightarrow>
                  fetch_categories P now cs news_list' (calls @ [CategoryHeadlines c]))
           else fetch_categories P now cs news_list (calls @ [CategoryHeadlines c])))"

definition fetch_order :: "ustring list" where
  "fetch_order = [cat_technology, cat_science, cat_business, cat_health, cat_sports]"

text \<open>
  The loop over the articles of the broad answer: a valid article is appended only when
  no collected entry has its title, and the loop stops once 15 entries are collected.
  An exception inside the loop is caught by the enclosing \<open>try\<close>, which keeps what was
  collected.
\<close>

fun merge_general :: "time \<Rightarrow> article list \<Rightarrow> item list \<Rightarrow> item list" where
  "merge_general now [] news_list = news_list"
| "merge_general now (a # as) news_list =
     (if valid_article a then
        (if a_title a \<in> set (map (\<lambda>existing. Some (title existing)) news_list)
         then merge_general now as news_list
         else (case make_item a ru_general now of
                 Inl e \<Rightarrow> news_list
               | Inr it \<Rightarrow>
                   (if length (news_list @ [it]) \<ge> 15 then news_list @ [it]
                    else merge_general now as (news_list @ [it]))))
      else merge_general now as news_list)"

text \<open>The broad request, issued when fewer than 5 entries were collected.\<close>

definition fetch_general :: "provider \<Rightarrow> time \<Rightarrow> item list \<Rightarrow> item list" where
  "fetch_general P now news_list =
     (case P GeneralHeadlines of
        RequestFailed \<Rightarrow> news_list
      | Body ok arts \<Rightarrow>
          (if ok \<and> arts \<noteq> [] then merge_general now arts news_list else news_list))"

text \<open>
  \<open>_fetch_news\<close>. \<open>get_test_news\<close> is the class's \<open>_get_test_news\<close>, \<open>has_key\<close>
  tells whether \<open>NEWS_API_KEY\<close> is set. The result is the batch and the requests issued.
\<close>

definition fetch_news ::
  "(time \<Rightarrow> item list) \<Rightarrow> bool \<Rightarrow> provider \<Rightarrow> time \<Rightarrow> item list \<times> request list" where
  "fetch_news get_test_news has_key P now =
     (if \<not> has_key then (get_test_news now, [])
      else
        (case fetch_categories P now fetch_order [] [] of
           (Inl e, calls) \<Rightarrow> (get_test_news now, calls)
         | (Inr news_list, calls) \<Rightarrow>
             (let (news_list', calls') =
                    (if length news_list < 5
                     then (fetch_general P now news_list, calls @ [GeneralHeadlines])
                     else (news_list, calls))
              in if news_list' = [] then (get_test_news now, calls')
                 else (news_list', calls'))))"

text \<open>\<open>_get_test_news\<close> of bot.py: six entries.\<close>

definition sample_item :: "ustring \<Rightarrow> ustring \<Rightarrow> ustring \<Rightarrow> ustring \<Rightarrow> ustring \<Rightarrow> time \<Rightarrow> item" where
  "sample_item t d u s c now =
     \<lparr>title = t, description = d, url = u, source = s, category = c,
      published_at = Iso now, timestamp = now, saved_at = None\<rparr>"

definition bot_get_test_news :: "time \<Rightarrow> item list" where
  "bot_get_test_news now =
     [sample_item sample1_title sample1_description sample1_url sample1_source ru_technology now,
      sample_item sample2_title sample2_description sample2_url sample2_source ru_science now,
      sample_item sample3_title sample3_description sample3_url sample3_source ru_business now,
      sample_item sample4_title sample4_description sample4_url sample4_source ru_technology now,
      sample_item sample5_title sample5_description sample5_url sample5_source ru_science now,
      sample_item sample6_title sample6_description sample6_url sample6_source ru_business now]"

text \<open>\<open>_get_test_news\<close> of \<open>full_webhook_bot.py\<close>: the first two of these entries.\<close>

definition full_get_test_news :: "time \<Rightarrow> item list" where
  "full_get_test_news now =
     [sample_item sample1_title sample1_description sample1_url sample1_source ru_technology now,
      sample_item sample2_title sample2_description sample2_url sample2_source ru_science now]"

section \<open>The cache: \<open>NewsBot._update_news\<close>\<close>

text \<open>
  The content of \<open>data/news.json\<close>: \<open>{'last_update': ..., 'news': [...]}\<close>, created
  with no update time and no news.
\<close>

record news_data =
  last_update :: "time option"
  news :: "item list"

definition init_news_data :: news_data where
  "init_news_data = \<lparr>last_update = None, news = []\<rparr>"

text \<open>\<open>timedelta(minutes=30)\<close> in microseconds.\<close>

definition ttl :: int where
  "ttl = 30 * 60 * 1000000"

text \<open>
  The condition of the \<open>if\<close> in \<open>_update_news\<close>: no update time stored, or the stored
  one is earlier than thirty minutes before now.
\<close>

definition needs_refresh :: "news_data \<Rightarrow> time \<Rightarrow> bool" where
  "needs_refresh nd current_time =
     (case last_update nd of None \<Rightarrow> True | Some t \<Rightarrow> t < current_time - ttl)"

text \<open>
  \<open>_update_news\<close>: returns the batch, the new content of the news file and the
  provider requests issued on the way. The news file is read and written without failure
  and holds both of its keys, so the \<open>except\<close> branch that returns the empty list is
  not reached.
\<close>

definition update_news ::
  "(time \<Rightarrow> item list) \<Rightarrow> bool \<Rightarrow> provider \<Rightarrow> time \<Rightarrow> news_data
     \<Rightarrow> item list \<times> news_data \<times> request list" where
  "update_news get_test_news has_key P current_time nd =
     (if needs_refresh nd current_time then
        (let (new_news, calls) = fetch_news get_test_news has_key P current_time;
             nd' = nd\<lparr>news := new_news, last_update := Some current_time\<rparr>
         in (news nd', nd', calls))
      else (news nd, nd, []))"

definition bot_update_news ::
  "bool \<Rightarrow> provider \<Rightarrow> time \<Rightarrow> news_data \<Rightarrow> item list \<times> news_data \<times> request list" where
  "bot_update_news = update_news bot_get_test_news"

definition full_update_news ::
  "bool \<Rightarrow> provider \<Rightarrow> time \<Rightarrow> news_data \<Rightarrow> item list \<times> news_data \<times> request list" where
  "full_update_news = update_news full_get_test_news"

section \<open>Saving by number: \<open>NewsBot.save_command\<close> (bot.py)\<close>

text \<open>The replies of the save commands; \<open>Saved\<close> carries the entry that was stored.\<close>

datatype outcome = InvalidNumber | AlreadyExists | Saved item

text \<open>
  \<open>users_data['favorites']\<close>: a dictionary from \<open>str(user_id)\<close> to the list of saved
  entries. The stores are read and written without failure.
\<close>

type_synonym favorites = "user \<rightharpoonup> item list"

text \<open>The favorites of a user, \<open>favorites.get(str(user_id), [])\<close>.\<close>

definition favorites_of :: "favorites \<Rightarrow> user \<Rightarrow> item list" where
  "favorites_of favs user_id = (case favs user_id of None \<Rightarrow> [] | Some l \<Rightarrow> l)"


section \<open>The last list shown to a user: \<open>SimpleNewsBot\<close> (\<open>simple_sync_webhook_bot.py\<close>)\<close>

text \<open>
  \<open>last_news_cache\<close> is the dictionary in memory, \<open>favorites_file\<close> the content of
  \<open>data/favorites.json\<close>.
\<close>

record simple_bot =
  last_news_cache :: "user \<rightharpoonup> item list"
  favorites_file :: favorites

definition init_simple_bot :: simple_bot where
  "init_simple_bot = \<lparr>last_news_cache = Map.empty, favorites_file = Map.empty\<rparr>"

text \<open>\<open>_filter_saved_news\<close>.\<close>

definition filter_saved_news :: "simple_bot \<Rightarrow> item list \<Rightarrow> user \<Rightarrow> item list" where
  "filter_saved_news self news_list user_id =
     (case favorites_file self user_id of
        None \<Rightarrow> news_list
      | Some user_favorites \<Rightarrow>
          filter (\<lambda>n. title n \<notin> set (map title user_favorites)) news_list)"

text \<open>
  \<open>handle_news_command\<close>. \<open>news_list\<close> is what \<open>self.get_news()\<close> returned for this
  request. The result is the list of entries sent to the user and the new state of the bot.
\<close>

definition handle_news_command :: "simple_bot \<Rightarrow> item list \<Rightarrow> user \<Rightarrow> item list \<times> simple_bot" where
  "handle_news_command self news_list chat_id =
     (if news_list = [] then ([], self)
      else
        (let filtered_news = filter_saved_news self news_list chat_id in
         if filtered_news = [] then ([], self)
         else (take 5 filtered_news,
               self\<lparr>last_news_cache := (last_news_cache self)(chat_id \<mapsto> take 5 filtered_news)\<rparr>)))"

text \<open>
  The first half of \<open>handle_save_command\<close> (down to \<open>news_to_save = ...\<close>): the number
  is looked up in the list cached for the user, or, when none is cached, in a batch fetched
  on the spot, whose first five entries are then cached. \<open>fresh\<close> is what
  \<open>self.get_news()\<close> returns when it is called.
\<close>

definition resolve :: "simple_bot \<Rightarrow> item list \<Rightarrow> user \<Rightarrow> int \<Rightarrow> (outcome + item) \<times> simple_bot" where
  "resolve self fresh chat_id news_number =
     (let (news_list, self') =
            (case last_news_cache self chat_id of
               Some cached \<Rightarrow> (cached, self)
             | None \<Rightarrow>
                 (fresh,
                  if fresh \<noteq> []
                  then self\<lparr>last_news_cache := (last_news_cache self)(chat_id \<mapsto> take 5 fresh)\<rparr>
                  else self))
      in if news_list = [] \<or> news_number < 1 \<or> news_number > int (length news_list)
         then (Inl InvalidNumber, self')
         else (Inr (news_list ! nat (news_number - 1)), self'))"

text \<open>
  The second half of \<open>handle_save_command\<close>: the entry is appended to the user's
  favorites unless one of them has its title. The entry gets the key \<open>saved_at\<close>.
\<close>

definition save_favorite :: "favorites \<Rightarrow> user \<Rightarrow> item \<Rightarrow> time \<Rightarrow> outcome \<times> favorites" where
  "save_favorite favs chat_id news_to_save now =
     (let mine = favorites_of favs chat_id in
      if title news_to_save \<in> set (map title mine) then (AlreadyExists, favs)
      else (Saved (news_to_save\<lparr>saved_at := Some now\<rparr>),
            favs(chat_id \<mapsto> mine @ [news_to_save\<lparr>saved_at := Some now\<rparr>])))"

text \<open>
  \<open>handle_save_command\<close>. The entry that receives \<open>saved_at\<close> is the very dictionary
  held by the cached list, so the cached entry changes with it.
\<close>

definition handle_save_command ::
  "simple_bot \<Rightarrow> item list \<Rightarrow> time \<Rightarrow> user \<Rightarrow> int \<Rightarrow> outcome \<times> simple_bot" where
  "handle_save_command self fresh now chat_id news_number =
     (case resolve self fresh chat_id news_number of
        (Inl e, self') \<Rightarrow> (e, self')
      | (Inr news_to_save, self') \<Rightarrow>
          (case save_favorite (favorites_file self') chat_id news_to_save now of
             (Saved it, favs') \<Rightarrow>
               (Saved it,
                self'\<lparr>favorites_file := favs',
                     last_news_cache :=
                       (case last_news_cache self' chat_id of
                          None \<Rightarrow> last_news_cache self'
                        | Some cached \<Rightarrow>
                            (last_news_cache self')
                              (chat_id \<mapsto> cached[nat (news_number - 1) := it]))\<rparr>)
           | (r, favs') \<Rightarrow> (r, self')))"

section \<open>Subscriptions\<close>

datatype toggle = Subscribed | Unsubscribed

text \<open>
  \<open>daily_command\<close> of bot.py on \<open>users_data['subscribers']\<close>, a list of user ids:
  \<open>remove\<close> deletes the first occurrence, \<open>append\<close> adds at the end.
\<close>

definition daily_command :: "user list \<Rightarrow> user \<Rightarrow> toggle \<times> user list" where
  "daily_command subscribers user_id =
     (if user_id \<in> set subscribers then (Unsubscribed, remove1 user_id subscribers)
      else (Subscribed, subscribers @ [user_id]))"

text \<open>The list after the users \<open>us\<close> have sent \<open>/daily\<close>, one after the other.\<close>

fun run_daily :: "user list \<Rightarrow> user list \<Rightarrow> user list" where
  "run_daily subscribers [] = subscribers"
| "run_daily subscribers (u # us) = run_daily (snd (daily_command subscribers u)) us"

text \<open>
  The subscription entries of \<open>simple_sync_webhook_bot.py\<close>, in
  \<open>data/subscriptions.json\<close>.
\<close>

record subscription =
  subscribed :: bool
  subscribed_at :: "time option"
  last_sent :: "time option"
  unsubscribed_at :: "time option"

type_synonym subscriptions = "user \<rightharpoonup> subscription"

definition subscribe_to_daily :: "subscriptions \<Rightarrow> user \<Rightarrow> time \<Rightarrow> subscriptions" where
  "subscribe_to_daily subs chat_id now =
     subs(chat_id \<mapsto> \<lparr>subscribed = True, subscribed_at = Some now, last_sent = None,
                       unsubscribed_at = None\<rparr>)"

definition unsubscribe_from_daily :: "subscriptions \<Rightarrow> user \<Rightarrow> time \<Rightarrow> subscriptions" where
  "unsubscribe_from_daily subs chat_id now =
     (case subs chat_id of
        None \<Rightarrow> subs
      | Some s \<Rightarrow> subs(chat_id \<mapsto> s\<lparr>subscribed := False, unsubscribed_at := Some now\<rparr>))"

text \<open>The test of \<open>handle_daily_command\<close>: an entry exists and its flag is set.\<close>

definition is_subscribed :: "subscriptions \<Rightarrow> user \<Rightarrow> bool" where
  "is_subscribed subs chat_id =
     (case subs chat_id of None \<Rightarrow> False | Some s \<Rightarrow> subscribed s)"

text \<open>
  \<open>handle_daily_command\<close> offers one button, whose callback data is
  \<open>unsubscribe_daily\<close> for a subscribed user and \<open>subscribe_daily\<close> otherwise.
\<close>

datatype callback = SubscribeDaily | UnsubscribeDaily

definition handle_daily_command :: "subscriptions \<Rightarrow> user \<Rightarrow> callback" where
  "handle_daily_command subs chat_id =
     (if is_subscribed subs chat_id then UnsubscribeDaily else SubscribeDaily)"

text \<open>The two subscription branches of \<open>handle_callback_query\<close>.\<close>

definition handle_callback_query ::
  "subscriptions \<Rightarrow> user \<Rightarrow> callback \<Rightarrow> time \<Rightarrow> toggle \<times> subscriptions" where
  "handle_callback_query subs chat_id callback_data now =
     (case callback_data of
        SubscribeDaily \<Rightarrow> (Subscribed, subscribe_to_daily subs chat_id now)
      | UnsubscribeDaily \<Rightarrow> (Unsubscribed, unsubscribe_from_daily subs chat_id now))"

text \<open>A user sends \<open>/daily\<close> and presses the button that is offered.\<close>

definition press_daily :: "subscriptions \<Rightarrow> user \<Rightarrow> time \<Rightarrow> toggle \<times> subscriptions" where
  "press_daily subs chat_id now =
     handle_callback_query subs chat_id (handle_daily_command subs chat_id) now"

section \<open>The daily digest: \<open>send_daily_digest\<close> (scheduler.py, bot.py)\<close>

definition digest_head :: ustring where
  \<comment> \<open>opening of the f-string up to the item count (emoji and Cyrillic)\<close>
  "digest_head =
     [10, 127749, 32, 42, 42, 1044, 1086, 1073, 1088, 1086, 1077, 32, 1091, 1090, 1088, 1086, 33,
     32, 1045, 1078, 1077, 1076, 1085, 1077, 1074, 1085, 1099, 1081, 32, 1076, 1072, 1081, 1076,
     1078, 1077, 1089, 1090, 32, 1085, 1086, 1074, 1086, 1089, 1090, 1077, 1081, 42, 42, 10, 10,
     128240, 32, 1057, 1077, 1075, 1086, 1076, 1085, 1103, 32, 1091, 32, 1085, 1072, 1089, 32]"

definition digest_head_end :: ustring where
  \<comment> \<open>rest of the f-string after the item count\<close>
  "digest_head_end =
     [32, 1089, 1074, 1077, 1078, 1080, 1093, 32, 1085, 1086, 1074, 1086, 1089, 1090, 1077, 1081,
     58, 10, 10]"

definition digest_bold :: ustring where
  \<comment> \<open>the ASCII string **\<close>
  "digest_bold =
     [42, 42]"

definition digest_dot :: ustring where
  \<comment> \<open>the ASCII string . \<close>
  "digest_dot =
     [46, 32]"

definition digest_bold_nl :: ustring where
  \<comment> \<open>the ASCII string **?\<close>
  "digest_bold_nl =
     [42, 42, 10]"

definition digest_memo :: ustring where
  \<comment> \<open>memo emoji U+1F4DD and a space\<close>
  "digest_memo =
     [128221, 32]"

definition digest_dots_nl :: ustring where
  \<comment> \<open>the ASCII string ...?\<close>
  "digest_dots_nl =
     [46, 46, 46, 10]"

definition digest_label :: ustring where
  \<comment> \<open>label emoji U+1F3F7 U+FE0F and a space\<close>
  "digest_label =
     [127991, 65039, 32]"

definition digest_sep :: ustring where
  \<comment> \<open>separator with the newspaper emoji U+1F4F0\<close>
  "digest_sep =
     [32, 124, 32, 128240, 32]"

definition digest_nl :: ustring where
  \<comment> \<open>the ASCII string ?\<close>
  "digest_nl =
     [10]"

definition digest_link :: ustring where
  \<comment> \<open>link emoji U+1F517 and the Cyrillic link caption\<close>
  "digest_link =
     [128279, 32, 91, 1063, 1080, 1090, 1072, 1090, 1100, 32, 1076, 1072, 1083, 1077, 1077, 93,
     40]"

definition digest_link_end :: ustring where
  \<comment> \<open>the ASCII string )??\<close>
  "digest_link_end =
     [41, 10, 10]"

definition digest_foot :: ustring where
  \<comment> \<open>closing line (Cyrillic with the two command names)\<close>
  "digest_foot =
     [1048, 1089, 1087, 1086, 1083, 1100, 1079, 1091, 1081, 1090, 1077, 32, 47, 110, 101, 119,
     115, 32, 1076, 1083, 1103, 32, 1087, 1088, 1086, 1089, 1084, 1086, 1090, 1088, 1072, 32,
     1074, 1089, 1077, 1093, 32, 1085, 1086, 1074, 1086, 1089, 1090, 1077, 1081, 32, 1080, 1083,
     1080, 32, 47, 102, 97, 118, 111, 114, 105, 116, 101, 115, 32, 1076, 1083, 1103, 32, 1080,
     1079, 1073, 1088, 1072, 1085, 1085, 1086, 1075, 1086, 33]"

text \<open>Python's \<open>str\<close> of a natural number: its decimal digits.\<close>

fun str_nat :: "nat \<Rightarrow> ustring" where
  "str_nat n = (if n < 10 then [48 + n] else str_nat (n div 10) @ [48 + n mod 10])"

declare str_nat.simps [simp del]

text \<open>The four lines the loop adds for entry number \<open>i\<close>.\<close>

definition digest_entry :: "nat \<Rightarrow> item \<Rightarrow> ustring" where
  "digest_entry i n =
     digest_bold @ str_nat i @ digest_dot @ title n @ digest_bold_nl
     @ digest_memo @ take 100 (description n) @ digest_dots_nl
     @ digest_label @ category n @ digest_sep @ source n @ digest_nl
     @ digest_link @ url n @ digest_link_end"

text \<open>\<open>for i, news in enumerate(..., i)\<close>.\<close>

fun digest_entries :: "nat \<Rightarrow> item list \<Rightarrow> ustring" where
  "digest_entries i [] = []"
| "digest_entries i (n # ns) = digest_entry i n @ digest_entries (Suc i) ns"

text \<open>The text built between the two early returns and the sending loop.\<close>

definition digest_text :: "item list \<Rightarrow> ustring" where
  "digest_text news_list =
     digest_head @ str_nat (length news_list) @ digest_head_end
     @ digest_entries 1 (take 5 news_list) @ digest_foot"

text \<open>
  \<open>send_daily_digest\<close>: the messages that reach a subscriber. Each send sits in its own
  \<open>try\<close>; \<open>delivers u\<close> tells whether the send to \<open>u\<close> succeeds. In bot.py the send
  reads a name \<open>context\<close> that is not defined there, so there no send succeeds.
\<close>

definition send_daily_digest :: "(user \<Rightarrow> bool) \<Rightarrow> user list \<Rightarrow> item list \<Rightarrow> (user \<times> ustring) list" where
  "send_daily_digest delivers subscribers news_list =
     (if subscribers = [] then []
      else if news_list = [] then []
      else map (\<lambda>user_id. (user_id, digest_text news_list)) (filter delivers subscribers))"

section \<open>Scenario data\<close>

text \<open>
  Concrete entries, articles and a provider for the scenarios of the specification:
  the titles \<open>Quantum breakthrough\<close> and \<open>AI model\<close>, entries told apart by their
  titles, and a provider whose technology and science answers share a title.
\<close>

definition quantum_title :: ustring where
  "quantum_title =
     [81, 117, 97, 110, 116, 117, 109, 32, 98, 114, 101, 97, 107, 116, 104, 114, 111, 117,
      103, 104]"

definition ai_title :: ustring where
  "ai_title = [65, 73, 32, 109, 111, 100, 101, 108]"

definition scenario_item :: "ustring \<Rightarrow> item" where
  "scenario_item t = sample_item t [100] [117] [115] [99] 0"

definition scenario_article :: "ustring \<Rightarrow> ustring \<Rightarrow> article" where
  "scenario_article t u =
     \<lparr>a_title = Some t, a_description = Some [100], a_url = Some u,
      a_source_name = Some [87, 105, 114, 101], a_published_at = Some [50, 48, 50, 53]\<rparr>"

definition scenario_provider :: provider where
  "scenario_provider r =
     (if r = CategoryHeadlines cat_technology
      then Body True [scenario_article quantum_title [97], scenario_article ai_title [98]]
      else if r = CategoryHeadlines cat_science
      then Body True [scenario_article quantum_title [99]]
      else Body True [])"


text \<open>
  The lists of the scenario of the numbered list: a user is shown three entries, saves
  the second, and is then shown two other entries.
\<close>

definition scenario_xyz :: "item list" where
  "scenario_xyz = [scenario_item [88], scenario_item [89], scenario_item [90]]"

definition scenario_pq :: "item list" where
  "scenario_pq = [scenario_item [80], scenario_item [81]]"

definition after_first_view :: simple_bot where
  "after_first_view = snd (handle_news_command init_simple_bot scenario_xyz 7)"

definition after_first_save :: simple_bot where
  "after_first_save = snd (handle_save_command after_first_view [] 5 7 2)"

definition after_second_view :: simple_bot where
  "after_second_view = snd (handle_news_command after_first_save scenario_pq 7)"

text \<open>A user who has saved the entry titled \<open>Quantum breakthrough\<close>.\<close>

definition quantum_saved :: simple_bot where
  "quantum_saved =
     \<lparr>last_news_cache = Map.empty, favorites_file = [7 \<mapsto> [scenario_item quantum_title]]\<rparr>"

section \<open>The cache within and past its time to live\<close>


lemma update_news_refresh:
  "needs_refresh nd t \<Longrightarrow>
   update_news g k P t nd =
     (fst (fetch_news g k P t), nd\<lparr>news := fst (fetch_news g k P t), last_update := Some t\<rparr>,
      snd (fetch_news g k P t))"
  by (simp add: update_news_def Let_def split: prod.splits)


lemma fetch_all_failed:
  assumes "\<forall>r. P r = RequestFailed"
  shows "fetch_news g True P now = (g now, [CategoryHeadlines cat_technology])"
  using assms by (simp add: fetch_news_def fetch_order_def)

lemma fetch_news_nonempty:
  "g now \<noteq> [] \<Longrightarrow> fst (fetch_news g k P now) \<noteq> []"
  by (auto simp: fetch_news_def Let_def split: prod.splits sum.splits)



text \<open>
  A stale cache holding one entry, and a provider whose every request fails: the call
  does not return the cached entry. The claim C1 says it would.
\<close>

theorem stale_batch_replaced_counterexample:
  "fst (bot_update_news True (\<lambda>r. RequestFailed) (ttl + 1)
         \<lparr>last_update = Some 0, news = [scenario_item quantum_title]\<rparr>)
   \<noteq> [scenario_item quantum_title]"
  by (simp add: bot_update_news_def update_news_refresh needs_refresh_def fetch_all_failed
      bot_get_test_news_def)

text \<open>
  Claim C1, as the code has it. When a refresh is due and every provider request fails,
  \<open>_update_news\<close> returns the built-in sample batch, whatever the cache held: the first
  request, for the technology category, is the only one issued, the sample batch replaces
  the cached batch and the cache is stamped with the current time.
\<close>

theorem provider_failure_serves_sample:
  assumes "needs_refresh nd now" and "\<forall>r. P r = RequestFailed"
  shows "update_news get_test_news True P now nd =
           (get_test_news now, nd\<lparr>news := get_test_news now, last_update := Some now\<rparr>,
            [CategoryHeadlines cat_technology])"
  using assms by (simp add: update_news_refresh fetch_all_failed)

theorem provider_failure_serves_sample_witness:
  "needs_refresh \<lparr>last_update = Some 0, news = [scenario_item quantum_title]\<rparr> (ttl + 1) \<and>
   update_news bot_get_test_news True (\<lambda>r. RequestFailed) (ttl + 1)
       \<lparr>last_update = Some 0, news = [scenario_item quantum_title]\<rparr> =
     (bot_get_test_news (ttl + 1),
      \<lparr>last_update = Some (ttl + 1), news = bot_get_test_news (ttl + 1)\<rparr>,
      [CategoryHeadlines cat_technology])"
proof -
  have a: "needs_refresh \<lparr>last_update = Some 0, news = [scenario_item quantum_title]\<rparr> (ttl + 1)"
    by (simp add: needs_refresh_def)
  have b: "\<forall>r. (\<lambda>r. RequestFailed) r = RequestFailed" by simp
  from provider_failure_serves_sample [OF a b, of bot_get_test_news] a
  show ?thesis by simp
qed

section \<open>The sample batch\<close>

lemma fetch_categories_empty:
  assumes "\<forall>r. P r = RequestFailed \<or> (\<exists>ok. P r = Body ok [])"
  shows "fst (fetch_categories P now cs acc calls) = Inl RequestException
         \<or> fst (fetch_categories P now cs acc calls) = Inr acc"
proof (induction cs arbitrary: calls)
  case Nil
  show ?case by simp
next
  case (Cons c cs)
  from assms
  have "P (CategoryHeadlines c) = RequestFailed \<or> (\<exists>ok. P (CategoryHeadlines c) = Body ok [])"
    by blast
  then show ?case
  proof
    assume "P (CategoryHeadlines c) = RequestFailed"
    then show ?thesis by simp
  next
    assume "\<exists>ok. P (CategoryHeadlines c) = Body ok []"
    then obtain ok where "P (CategoryHeadlines c) = Body ok []" ..
    then show ?thesis using Cons.IH [of "calls @ [CategoryHeadlines c]"] by simp
  qed
qed

lemma fetch_general_empty:
  assumes "\<forall>r. P r = RequestFailed \<or> (\<exists>ok. P r = Body ok [])"
  shows "fetch_general P now acc = acc"
proof -
  from assms
  have "P GeneralHeadlines = RequestFailed \<or> (\<exists>ok. P GeneralHeadlines = Body ok [])"
    by blast
  then show ?thesis by (auto simp: fetch_general_def)
qed

lemma fetch_news_empty:
  assumes "\<forall>r. P r = RequestFailed \<or> (\<exists>ok. P r = Body ok [])"
  shows "fst (fetch_news g k P now) = g now"
proof (cases k)
  case False
  then show ?thesis by (simp add: fetch_news_def)
next
  case True
  obtain r calls where fc: "fetch_categories P now fetch_order [] [] = (r, calls)"
    by (cases "fetch_categories P now fetch_order [] []")
  with fetch_categories_empty [OF assms, of now fetch_order "[]" "[]"]
  have "r = Inl RequestException \<or> r = Inr []" by simp
  then show ?thesis
    using True fc by (auto simp: fetch_news_def fetch_general_empty [OF assms])
qed

text \<open>
  On the empty initial cache and a provider that fails, \<open>_update_news\<close> of bot.py
  returns six entries. The claim C3 says two.
\<close>

theorem sample_size_counterexample:
  "length (fst (bot_update_news True (\<lambda>r. RequestFailed) 0 init_news_data)) = 6"
  by (simp add: bot_update_news_def update_news_refresh needs_refresh_def fetch_all_failed
      bot_get_test_news_def init_news_data_def)

text \<open>
  Claim C3, as the code has it. When a refresh is due, as it is on the empty initial
  cache, and every provider request fails or answers with no article, \<open>_update_news\<close>
  returns exactly the sample batch of its class: the two entries of
  \<open>full_webhook_bot.py\<close>, the six entries of bot.py. Whatever the provider \<open>P'\<close> answers,
  the batch returned by a refresh is not empty.
\<close>

theorem empty_cache_serves_sample:
  assumes "needs_refresh nd now"
    and "\<forall>r. P r = RequestFailed \<or> (\<exists>ok. P r = Body ok [])"
  shows "fst (full_update_news k P now nd) = full_get_test_news now
       \<and> length (full_get_test_news now) = 2
       \<and> fst (bot_update_news k P now nd) = bot_get_test_news now
       \<and> length (bot_get_test_news now) = 6
       \<and> fst (full_update_news k P' now nd) \<noteq> []
       \<and> fst (bot_update_news k P' now nd) \<noteq> []"
proof -
  have "fst (full_update_news k P now nd) = full_get_test_news now"
    using assms by (simp add: full_update_news_def update_news_refresh fetch_news_empty)
  moreover have "fst (bot_update_news k P now nd) = bot_get_test_news now"
    using assms by (simp add: bot_update_news_def update_news_refresh fetch_news_empty)
  moreover have "length (full_get_test_news now) = 2" by (simp add: full_get_test_news_def)
  moreover have "length (bot_get_test_news now) = 6" by (simp add: bot_get_test_news_def)
  moreover have "fst (full_update_news k P' now nd) \<noteq> []"
    using assms(1) fetch_news_nonempty [of full_get_test_news now k P']
    by (simp add: full_update_news_def update_news_refresh full_get_test_news_def)
  moreover have "fst (bot_update_news k P' now nd) \<noteq> []"
    using assms(1) fetch_news_nonempty [of bot_get_test_news now k P']
    by (simp add: bot_update_news_def update_news_refresh bot_get_test_news_def)
  ultimately show ?thesis by simp
qed

theorem empty_cache_serves_sample_witness:
  "needs_refresh init_news_data 0
   \<and> fst (full_update_news True (\<lambda>r. Body True []) 0 init_news_data) = full_get_test_news 0
   \<and> length (full_get_test_news 0) = 2
   \<and> fst (bot_update_news True (\<lambda>r. Body True []) 0 init_news_data) = bot_get_test_news 0
   \<and> fst (full_update_news True scenario_provider 0 init_news_data) \<noteq> []"
proof -
  have a: "needs_refresh init_news_data 0"
    by (simp add: needs_refresh_def init_news_data_def)
  have b: "\<forall>r. (\<lambda>r. Body True []) r = RequestFailed \<or> (\<exists>ok. (\<lambda>r. Body True []) r = Body ok [])"
    by auto
  from empty_cache_serves_sample [OF a b, of True scenario_provider] a
  show ?thesis by simp
qed

section \<open>Titles within one batch\<close>

lemma make_item_title: "make_item a c now = Inr it \<Longrightarrow> a_title a = Some (title it)"
  by (auto simp: make_item_def split: option.splits)

text \<open>
  The loop over the broad answer keeps the titles of a batch distinct: it adds an
  article only when no collected entry has its title.
\<close>

lemma merge_general_distinct:
  "distinct (map title news_list) \<Longrightarrow> distinct (map title (merge_general now arts news_list))"
proof (induction now arts news_list rule: merge_general.induct)
  case (1 now news_list)
  then show ?case by simp
next
  case (2 now a as news_list)
  show ?case
  proof (cases "valid_article a \<and> a_title a \<notin> set (map (\<lambda>existing. Some (title existing)) news_list)")
    case False
    then show ?thesis using 2 by auto
  next
    case True
    show ?thesis
    proof (cases "make_item a ru_general now")
      case (Inl e)
      then show ?thesis using True "2.prems" by simp
    next
      case (Inr it)
      from make_item_title [OF Inr] True have "title it \<notin> set (map title news_list)"
        by auto
      then have d: "distinct (map title (news_list @ [it]))" using "2.prems" by simp
      show ?thesis
      proof (cases "length (news_list @ [it]) \<ge> 15")
        case True
        then show ?thesis using \<open>valid_article a \<and> _\<close> Inr d by simp
      next
        case False
        then have "distinct (map title (merge_general now as (news_list @ [it])))"
          using "2.IH"(2) [OF _ _ Inr _ d] True by simp
        then show ?thesis using \<open>valid_article a \<and> _\<close> Inr False by simp
      qed
    qed
  qed
qed

text \<open>
  The scenario of the specification on that loop: of three articles, the third with the
  title of the first, the first two are kept, in their order.
\<close>

lemma merge_general_scenario:
  "map title (merge_general 0
     [scenario_article quantum_title [97], scenario_article ai_title [98],
      scenario_article quantum_title [99]] [])
   = [quantum_title, ai_title]
   \<and> map url (merge_general 0
     [scenario_article quantum_title [97], scenario_article ai_title [98],
      scenario_article quantum_title [99]] []) = [[97], [98]]"
  by (simp add: scenario_article_def valid_article_def truthy_def make_item_def
      quantum_title_def ai_title_def removed_url_def)

text \<open>
  Claim C2 fails on the loop over the categories, which appends without a look at the
  titles collected. The technology answer holds the articles titled
  \<open>Quantum breakthrough\<close> and \<open>AI model\<close>, the science answer one more titled
  \<open>Quantum breakthrough\<close>, every other answer is empty: the batch \<open>_update_news\<close>
  returns has three entries, two of them with the same title.
\<close>

theorem category_duplicates_kept:
  "map title (fst (bot_update_news True scenario_provider 0 init_news_data))
     = [quantum_title, ai_title, quantum_title]
   \<and> \<not> distinct (map title (fst (bot_update_news True scenario_provider 0 init_news_data)))"
proof -
  have nq: "cat_technology \<noteq> cat_science" "cat_business \<noteq> cat_technology"
    "cat_business \<noteq> cat_science" "cat_health \<noteq> cat_technology"
    "cat_health \<noteq> cat_science" "cat_sports \<noteq> cat_technology"
    "cat_sports \<noteq> cat_science"
    by (simp_all add: cat_technology_def cat_science_def cat_business_def cat_health_def
        cat_sports_def)
  have fc: "map title (fst (fetch_news bot_get_test_news True scenario_provider 0))
     = [quantum_title, ai_title, quantum_title]"
    using nq by (simp add: fetch_news_def fetch_order_def scenario_provider_def
        valid_article_def truthy_def removed_url_def quantum_title_def ai_title_def
        make_item_def scenario_article_def fetch_general_def)
  have "needs_refresh init_news_data 0" by (simp add: needs_refresh_def init_news_data_def)
  then have "map title (fst (bot_update_news True scenario_provider 0 init_news_data))
     = [quantum_title, ai_title, quantum_title]"
    using fc by (simp add: bot_update_news_def update_news_refresh)
  then show ?thesis by simp
qed

section \<open>Numbers outside the list\<close>

lemma resolve_cached:
  "last_news_cache self u = Some cached \<Longrightarrow>
   resolve self fresh u n =
     (if cached = [] \<or> n < 1 \<or> n > int (length cached) then Inl InvalidNumber
      else Inr (cached ! nat (n - 1)), self)"
  by (simp add: resolve_def)







section \<open>Saving twice\<close>

lemma save_favorite_Saved:
  assumes "save_favorite favs u x t = (Saved x', favs1)"
  shows "x' = x\<lparr>saved_at := Some t\<rparr> \<and> title x \<notin> set (map title (favorites_of favs u))
       \<and> favs1 = favs(u \<mapsto> favorites_of favs u @ [x'])"
  using assms by (auto simp: save_favorite_def Let_def split: if_splits)




lemma save_favorite_again:
  assumes "save_favorite favs u x t = (Saved x', favs1)" and "title y = title x"
  shows "save_favorite favs1 u y t2 = (AlreadyExists, favs1)"
proof -
  from save_favorite_Saved [OF assms(1)]
  have x': "x' = x\<lparr>saved_at := Some t\<rparr>"
    and f1: "favs1 = favs(u \<mapsto> favorites_of favs u @ [x'])" by simp_all
  then have "title y \<in> set (map title (favorites_of favs1 u))"
    using assms(2) by (simp add: favorites_of_def)
  then show ?thesis by (simp add: save_favorite_def)
qed

lemma handle_save_command_Inr:
  assumes "resolve self fresh u n = (Inr y, s)"
  shows "handle_save_command self fresh now u n =
    (if title y \<in> set (map title (favorites_of (favorites_file s) u)) then (AlreadyExists, s)
     else (Saved (y\<lparr>saved_at := Some now\<rparr>),
           s\<lparr>favorites_file := (favorites_file s)
                 (u \<mapsto> favorites_of (favorites_file s) u @ [y\<lparr>saved_at := Some now\<rparr>]),
             last_news_cache :=
               (case last_news_cache s u of None \<Rightarrow> last_news_cache s
                | Some cached \<Rightarrow> (last_news_cache s)(u \<mapsto> cached[nat (n - 1) := y\<lparr>saved_at := Some now\<rparr>]))\<rparr>))"
  using assms by (simp add: handle_save_command_def save_favorite_def Let_def)









section \<open>The list shown to a user\<close>

lemma handle_news_command_eq:
  "handle_news_command self news_list u =
     (if take 5 (filter_saved_news self news_list u) = [] then ([], self)
      else (take 5 (filter_saved_news self news_list u),
            self\<lparr>last_news_cache :=
                   (last_news_cache self)(u \<mapsto> take 5 (filter_saved_news self news_list u))\<rparr>))"
  by (cases "favorites_file self u")
     (auto simp: handle_news_command_def filter_saved_news_def Let_def)

lemma filter_saved_news_titles:
  "x \<in> set (filter_saved_news self news_list u) \<Longrightarrow>
   title x \<notin> set (map title (favorites_of (favorites_file self) u))"
  by (cases "favorites_file self u") (auto simp: filter_saved_news_def favorites_of_def)

lemma subseq_filter_saved_news: "subseq (filter_saved_news self news_list u) news_list"
  by (cases "favorites_file self u") (simp_all add: filter_saved_news_def)

lemma subseq_take: "subseq (take n xs) xs"
proof -
  have "subseq (take n xs) (take n xs @ drop n xs)" by (rule subseq_rev_drop_many) simp
  then show ?thesis by simp
qed

text \<open>
  Claim C7. When \<open>handle_news_command\<close> shows a list to a user, that list is what is
  recorded for the user afterwards, whatever was recorded before: the number \<open>n\<close>
  resolves to the \<open>n\<close>-th entry shown, and \<open>/save n\<close> saves that entry.
\<close>

theorem recorded_list_overwrites:
  assumes "handle_news_command self news_list u = (shown, self')" and "shown \<noteq> []"
    and "1 \<le> n" and "n \<le> int (length shown)"
  shows "last_news_cache self' u = Some shown
       \<and> resolve self' fresh u n = (Inr (shown ! nat (n - 1)), self')
       \<and> fst (handle_save_command self' fresh now u n)
           = Saved ((shown ! nat (n - 1))\<lparr>saved_at := Some now\<rparr>)"
proof -
  from assms(1,2) have sh: "shown = take 5 (filter_saved_news self news_list u)"
    and s': "self' = self\<lparr>last_news_cache := (last_news_cache self)(u \<mapsto> shown)\<rparr>"
    by (auto simp: handle_news_command_eq split: if_splits)
  from s' have c: "last_news_cache self' u = Some shown" by simp
  from assms(3,4) have ix: "nat (n - 1) < length shown" by auto
  from resolve_cached [OF c, of fresh n] assms(2,3,4)
  have r: "resolve self' fresh u n = (Inr (shown ! nat (n - 1)), self')" by simp
  from ix have "shown ! nat (n - 1) \<in> set shown" by simp
  with sh have "shown ! nat (n - 1) \<in> set (filter_saved_news self news_list u)"
    by (auto dest: in_set_takeD)
  from filter_saved_news_titles [OF this] s'
  have "title (shown ! nat (n - 1)) \<notin> set (map title (favorites_of (favorites_file self') u))"
    by simp
  with handle_save_command_Inr [OF r, of now]
  have "fst (handle_save_command self' fresh now u n)
           = Saved ((shown ! nat (n - 1))\<lparr>saved_at := Some now\<rparr>)" by simp
  with c r show ?thesis by simp
qed

theorem recorded_list_overwrites_witness:
  "fst (handle_save_command after_first_view [] 5 7 2)
     = Saved (scenario_item [89]\<lparr>saved_at := Some 5\<rparr>)
   \<and> fst (resolve after_second_view [] 7 2) = Inr (scenario_item [81])
   \<and> fst (handle_save_command after_second_view [] 6 7 2)
     = Saved (scenario_item [81]\<lparr>saved_at := Some 6\<rparr>)"
proof -
  have v1: "handle_news_command init_simple_bot scenario_xyz 7 = (scenario_xyz, after_first_view)"
    by (simp add: after_first_view_def handle_news_command_eq filter_saved_news_def
        init_simple_bot_def scenario_xyz_def)
  have ne1: "scenario_xyz \<noteq> []" and le1: "(1::int) \<le> 2" "(2::int) \<le> int (length scenario_xyz)"
    by (simp_all add: scenario_xyz_def)
  note t1 = recorded_list_overwrites [OF v1 ne1 le1, of "[]" 5]
  have y: "scenario_xyz ! Suc 0 = scenario_item [89]" by (simp add: scenario_xyz_def)
  from t1 have r1: "resolve after_first_view [] 7 2 = (Inr (scenario_item [89]), after_first_view)"
    by (simp add: y)
  have f0: "favorites_file after_first_view = Map.empty"
    by (simp add: after_first_view_def handle_news_command_eq filter_saved_news_def
        init_simple_bot_def scenario_xyz_def)
  have f1: "favorites_file after_first_save = [7 \<mapsto> [scenario_item [89]\<lparr>saved_at := Some 5\<rparr>]]"
    unfolding after_first_save_def
    by (subst handle_save_command_Inr [OF r1]) (simp add: f0 favorites_of_def)
  have v2: "handle_news_command after_first_save scenario_pq 7 = (scenario_pq, after_second_view)"
    by (simp add: after_second_view_def handle_news_command_eq filter_saved_news_def f1
        scenario_pq_def scenario_item_def sample_item_def)
  have ne2: "scenario_pq \<noteq> []" and le2: "(2::int) \<le> int (length scenario_pq)"
    by (simp_all add: scenario_pq_def)
  note t2 = recorded_list_overwrites [OF v2 ne2 le1(1) le2, of "[]" 6]
  have q: "scenario_pq ! Suc 0 = scenario_item [81]" by (simp add: scenario_pq_def)
  from t1 t2 show ?thesis by (simp add: y q)
qed

text \<open>
  Claim C10. The list \<open>handle_news_command\<close> shows has no title that is among the
  user's favorites at that moment, is a subsequence of the fetched batch and has at most
  five entries; when it is not empty it is the list recorded for the user.
\<close>

theorem shown_news_excludes_favorites:
  assumes "handle_news_command self news_list u = (shown, self')"
  shows "set (map title shown) \<inter> set (map title (favorites_of (favorites_file self) u)) = {}
       \<and> subseq shown news_list \<and> length shown \<le> 5
       \<and> last_news_cache self' u = (if shown = [] then last_news_cache self u else Some shown)"
proof -
  from assms have sh: "shown = take 5 (filter_saved_news self news_list u)"
    and s': "self' = (if shown = [] then self
               else self\<lparr>last_news_cache := (last_news_cache self)(u \<mapsto> shown)\<rparr>)"
    by (auto simp: handle_news_command_eq split: if_splits)
  have "title x \<notin> set (map title (favorites_of (favorites_file self) u))" if "x \<in> set shown" for x
  proof -
    from that sh have "x \<in> set (filter_saved_news self news_list u)" by (auto dest: in_set_takeD)
    then show ?thesis by (rule filter_saved_news_titles)
  qed
  then have 1: "set (map title shown) \<inter> set (map title (favorites_of (favorites_file self) u)) = {}"
    by auto
  have "subseq shown (filter_saved_news self news_list u)" unfolding sh by (rule subseq_take)
  then have 2: "subseq shown news_list"
    using subseq_filter_saved_news [of self news_list u] by (rule subseq_order.trans)
  have 3: "length shown \<le> 5" unfolding sh by simp
  have 4: "last_news_cache self' u = (if shown = [] then last_news_cache self u else Some shown)"
    using s' by simp
  from 1 2 3 4 show ?thesis by simp
qed

theorem shown_news_excludes_favorites_witness:
  "fst (handle_news_command quantum_saved
          [scenario_item quantum_title, scenario_item ai_title] 7) = [scenario_item ai_title]
   \<and> set (map title [scenario_item ai_title])
       \<inter> set (map title (favorites_of (favorites_file quantum_saved) 7)) = {}
   \<and> subseq [scenario_item ai_title] [scenario_item quantum_title, scenario_item ai_title]
   \<and> last_news_cache (snd (handle_news_command quantum_saved
          [scenario_item quantum_title, scenario_item ai_title] 7)) 7
       = Some [scenario_item ai_title]"
proof -
  let ?h = "handle_news_command quantum_saved [scenario_item quantum_title, scenario_item ai_title] 7"
  have f: "fst ?h = [scenario_item ai_title]"
    by (simp add: handle_news_command_eq filter_saved_news_def quantum_saved_def
        scenario_item_def sample_item_def quantum_title_def ai_title_def)
  then have a: "?h = ([scenario_item ai_title], snd ?h)" by (metis prod.collapse)
  from shown_news_excludes_favorites [OF a] f show ?thesis by simp
qed

section \<open>Toggling the subscription\<close>

lemma daily_command_set:
  "distinct subs \<Longrightarrow>
   set (snd (daily_command subs u)) = (if u \<in> set subs then set subs - {u} else insert u (set subs))"
  by (simp add: daily_command_def)

lemma daily_command_distinct: "distinct subs \<Longrightarrow> distinct (snd (daily_command subs u))"
  by (simp add: daily_command_def)

lemma run_daily_distinct: "distinct subs \<Longrightarrow> distinct (run_daily subs us)"
  by (induction us arbitrary: subs) (simp_all add: daily_command_distinct)

lemma run_daily_set:
  "distinct subs \<Longrightarrow>
   set (run_daily subs us) = {v. (v \<in> set subs) \<noteq> odd (count_list us v)}"
proof (induction us arbitrary: subs)
  case Nil
  then show ?case by simp
next
  case (Cons u us)
  from Cons.prems have d: "distinct (snd (daily_command subs u))" by (rule daily_command_distinct)
  show ?case
    using Cons.IH [OF d] daily_command_set [OF Cons.prems, of u] by auto
qed

lemma daily_command_twice:
  "distinct subs \<Longrightarrow>
   set (snd (daily_command (snd (daily_command subs u)) u)) = set subs"
  by (auto simp: daily_command_def)

lemma daily_command_alternates:
  "distinct subs \<Longrightarrow>
   fst (daily_command (snd (daily_command subs u)) u) \<noteq> fst (daily_command subs u)"
  by (auto simp: daily_command_def)

lemma press_daily_twice:
  "is_subscribed (snd (press_daily (snd (press_daily subs u t1)) u t2)) v = is_subscribed subs v"
  by (auto simp: press_daily_def handle_daily_command_def handle_callback_query_def
      is_subscribed_def subscribe_to_daily_def unsubscribe_from_daily_def split: option.splits)

lemma press_daily_alternates:
  "fst (press_daily (snd (press_daily subs u t1)) u t2) \<noteq> fst (press_daily subs u t1)"
  by (auto simp: press_daily_def handle_daily_command_def handle_callback_query_def
      is_subscribed_def subscribe_to_daily_def unsubscribe_from_daily_def split: option.splits)

text \<open>
  Claim C8. After any sequence \<open>us\<close> of \<open>/daily\<close> commands on the initially empty
  list of bot.py, two more by the user \<open>u\<close> give back the same set of subscribers, with
  the two replies differing and the first being \<open>Subscribed\<close> exactly when \<open>u\<close> was
  not in the list. The list the digest is sent to holds, without repetition, exactly the
  users who sent \<open>/daily\<close> an odd number of times. In \<open>simple_sync_webhook_bot.py\<close>,
  pressing the offered button twice gives every user the subscription state it had, with
  the two replies differing.
\<close>

theorem toggle_twice_restores:
  "set (snd (daily_command (snd (daily_command (run_daily [] us) u)) u)) = set (run_daily [] us)
   \<and> fst (daily_command (snd (daily_command (run_daily [] us) u)) u)
       \<noteq> fst (daily_command (run_daily [] us) u)
   \<and> (fst (daily_command (run_daily [] us) u) = Subscribed) = (u \<notin> set (run_daily [] us))
   \<and> set (run_daily [] us) = {v. odd (count_list us v)}
   \<and> distinct (run_daily [] us)
   \<and> is_subscribed (snd (press_daily (snd (press_daily subs u t1)) u t2)) v = is_subscribed subs v
   \<and> fst (press_daily (snd (press_daily subs u t1)) u t2) \<noteq> fst (press_daily subs u t1)
   \<and> (fst (press_daily subs u t1) = Subscribed) = (\<not> is_subscribed subs u)"
proof -
  have d: "distinct (run_daily [] us)" by (rule run_daily_distinct) simp
  have s: "set (run_daily [] us) = {v. odd (count_list us v)}"
    using run_daily_set [of "[]" us] by simp
  have r: "(fst (daily_command (run_daily [] us) u) = Subscribed) = (u \<notin> set (run_daily [] us))"
    by (simp add: daily_command_def)
  have p: "(fst (press_daily subs u t1) = Subscribed) = (\<not> is_subscribed subs u)"
    by (simp add: press_daily_def handle_daily_command_def handle_callback_query_def)
  from d s r p daily_command_twice [OF d, of u] daily_command_alternates [OF d, of u]
    press_daily_twice [of subs u t1 t2 v] press_daily_alternates [of subs u t1 t2]
  show ?thesis by simp
qed

section \<open>The digest\<close>

lemma digest_text_nonempty: "digest_text news_list \<noteq> []"
  by (simp add: digest_text_def digest_head_def)

text \<open>
  One subscriber, every send succeeding, no news: no message is sent at all. The claim
  C9 says a digest saying that there is no news is produced.
\<close>

theorem empty_digest_counterexample:
  "send_daily_digest (\<lambda>u. True) [7] [] = []"
  by (simp add: send_daily_digest_def)

text \<open>
  Claim C9, as the code has it. \<open>send_daily_digest\<close> sends nothing when there is no
  news. Otherwise the subscribers whose send succeeds get, in the order of the list, one
  and the same text, which is a function of the news list and is not empty.
\<close>

theorem digest_never_blank:
  "send_daily_digest delivers subscribers [] = []
   \<and> map fst (send_daily_digest delivers subscribers news_list)
       = (if news_list = [] then [] else filter delivers subscribers)
   \<and> set (map snd (send_daily_digest delivers subscribers news_list)) \<subseteq> {digest_text news_list}
   \<and> [] \<notin> set (map snd (send_daily_digest delivers subscribers news_list))
   \<and> digest_text news_list \<noteq> []"
  using digest_text_nonempty [of news_list]
  by (auto simp: send_daily_digest_def comp_def)

end
